theory Spec2Isabelle
  imports Complex_Main "HOL-Library.Word"
begin

section \<open>Style analyzer (app/services/analyzer.py)\<close>

text \<open>
  The analyzer receives a list of Python dicts and returns a Python dict.  A returned
  dict is an association list from key to value, in the order of the dict literal, and
  \<open>map_of\<close> is the lookup.  Of an input document only the key \<open>content\<close> is read
  (\<open>doc.get("content", "")\<close>), so a document is a record holding that key, absent or
  present.  Texts are ASCII: \<open>\w\<close> is a letter, a digit or the underscore, and
  \<open>lower()\<close> maps \<open>A..Z\<close> to \<open>a..z\<close>.  The mean is Python's true division, taken
  here over the reals.
\<close>

datatype pvalue =
    PStr string
  | PInt int
  | PFloat real
  | PDict "(string \<times> nat) list"
  | PList "(string \<times> nat) list"

type_synonym pydict = "(string \<times> pvalue) list"

record analysis_doc =
  ad_content :: "string option"

definition ord_char :: "char \<Rightarrow> nat" where
  "ord_char c = of_char c"

definition in_range :: "char \<Rightarrow> char \<Rightarrow> char \<Rightarrow> bool" where
  "in_range lo hi c \<longleftrightarrow> ord_char lo \<le> ord_char c \<and> ord_char c \<le> ord_char hi"

definition lower_char :: "char \<Rightarrow> char" where
  "lower_char c =
     (if in_range CHR ''A'' CHR ''Z'' c then char_of (ord_char c + 32) else c)"

definition lower :: "string \<Rightarrow> string" where
  "lower s = map lower_char s"

definition is_word_char :: "char \<Rightarrow> bool" where
  "is_word_char c \<longleftrightarrow>
     in_range CHR ''a'' CHR ''z'' c \<or> in_range CHR ''A'' CHR ''Z'' c \<or>
     in_range CHR ''0'' CHR ''9'' c \<or> c = CHR ''_''"

text \<open>\<open>re.findall(r"\w+", s)\<close>: the maximal runs of word characters, left to right;
  \<open>cur\<close> is the run being read.\<close>

fun findall_words_from :: "string \<Rightarrow> string \<Rightarrow> string list" where
  "findall_words_from cur [] = (if cur = [] then [] else [cur])"
| "findall_words_from cur (c # cs) =
     (if is_word_char c then findall_words_from (cur @ [c]) cs
      else if cur = [] then findall_words_from [] cs
      else cur # findall_words_from [] cs)"

definition findall_words :: "string \<Rightarrow> string list" where
  "findall_words s = findall_words_from [] s"

text \<open>\<open>" ".join(ws)\<close>.\<close>

fun join_space :: "string list \<Rightarrow> string" where
  "join_space [] = []"
| "join_space [w] = w"
| "join_space (w # v # ws) = w @ '' '' @ join_space (v # ws)"

text \<open>A \<open>Counter\<close> keeps its keys in the order of their first insertion.\<close>

type_synonym counter = "(string \<times> nat) list"

fun counter_incr :: "string \<Rightarrow> counter \<Rightarrow> counter" where
  "counter_incr w [] = [(w, 1)]"
| "counter_incr w ((k, c) # kvs) =
     (if k = w then (k, c + 1) # kvs else (k, c) # counter_incr w kvs)"

definition counter_update :: "string list \<Rightarrow> counter \<Rightarrow> counter" where
  "counter_update ws cnt = foldl (\<lambda>acc w. counter_incr w acc) cnt ws"

text \<open>\<open>Counter.most_common(n)\<close>: by descending count, equal counts in insertion
  order (the sort is stable), cut to \<open>n\<close> entries.\<close>

definition most_common :: "nat \<Rightarrow> counter \<Rightarrow> counter" where
  "most_common n cnt = take n (sort_key (\<lambda>kc. - int (snd kc)) cnt)"

text \<open>The body of the \<open>for doc in documents\<close> loop, on the triple
  \<open>(lengths, word_counter, opening_phrases)\<close>.\<close>

definition analyze_step ::
  "nat list \<times> counter \<times> counter \<Rightarrow> analysis_doc \<Rightarrow> nat list \<times> counter \<times> counter" where
  "analyze_step acc doc =
     (case acc of (lengths, word_counter, opening_phrases) \<Rightarrow>
        let text = (case ad_content doc of None \<Rightarrow> [] | Some t \<Rightarrow> t);
            words = findall_words (lower text);
            first_words = join_space (take 20 words)
        in (lengths @ [length words],
            counter_update words word_counter,
            counter_update [first_words] opening_phrases))"

definition analyze :: "analysis_doc list \<Rightarrow> pydict" where
  "analyze documents =
     (if documents = [] then
        [(''summary'', PStr ''no_docs''), (''word_freq'', PDict []), (''avg_length'', PInt 0)]
      else
        (case foldl analyze_step ([], [], []) documents of
           (lengths, word_counter, opening_phrases) \<Rightarrow>
             [(''avg_length_words'', PFloat (real (sum_list lengths) / real (length lengths))),
              (''median_length_words'', PInt (int (sort lengths ! (length lengths div 2)))),
              (''most_common_words'', PList (most_common 50 word_counter)),
              (''common_openings'', PList (most_common 5 opening_phrases))]))"

text \<open>The number of word tokens of one document, as the loop counts it.\<close>

definition token_count :: "analysis_doc \<Rightarrow> nat" where
  "token_count doc =
     length (findall_words (lower (case ad_content doc of None \<Rightarrow> [] | Some t \<Rightarrow> t)))"

section \<open>Errors\<close>

text \<open>Every exception of the modelled code is a value; \<open>error_detail\<close> is \<open>str(e)\<close>.\<close>

datatype error =
    ZeroDivisionError
  | IndexError
  | StoreError string
  | GroqClientError string
  | HTTPException nat string

fun error_detail :: "error \<Rightarrow> string" where
  "error_detail ZeroDivisionError = ''division by zero''"
| "error_detail IndexError = ''list index out of range''"
| "error_detail (StoreError m) = m"
| "error_detail (GroqClientError m) = m"
| "error_detail (HTTPException code d) = d"

section \<open>Embedding function (app/services/memory.py, \<open>_simple_text_to_vector\<close>)\<close>

text \<open>
  \<open>hashlib.sha256(text.encode("utf-8")).digest()\<close> is a library function: it is the
  parameter \<open>sha256\<close>, from the text to the digest bytes.  The array arithmetic of
  numpy is taken over the reals, so rounding to 32-bit floats is outside the model.
  \<open>np.ceil(dim / arr.size)\<close> divides by the Python integer \<open>arr.size\<close>, which raises
  for an empty array.
\<close>

type_synonym digest_fn = "string \<Rightarrow> 8 word list"

definition l2_norm :: "real list \<Rightarrow> real" where
  "l2_norm xs = sqrt (sum_list (map (\<lambda>x. x * x) xs))"

definition tile :: "'a list \<Rightarrow> nat \<Rightarrow> 'a list" where
  "tile xs reps = concat (replicate reps xs)"

definition simple_text_to_vector :: "digest_fn \<Rightarrow> string \<Rightarrow> nat \<Rightarrow> error + real list" where
  "simple_text_to_vector sha256 text dim_n =
     (let h = sha256 text;
          arr = map (\<lambda>b. real (unat b)) h
      in case (if length arr < dim_n then
                 (if length arr = 0 then Inl ZeroDivisionError
                  else let reps = nat \<lceil>real dim_n / real (length arr)\<rceil>
                       in Inr (take dim_n (tile arr reps)))
               else Inr (take dim_n arr)) of
           Inl e \<Rightarrow> Inl e
         | Inr arr' \<Rightarrow> Inr (map (\<lambda>x. x / (l2_norm arr' + 1 / 10 ^ 8)) arr'))"

text \<open>The SHA-256 digest of the empty byte string (\<open>e3b0c442 ... 7852b855\<close>), byte by
  byte in decimal, for concrete runs.\<close>

definition sha256_of_empty :: "8 word list" where
  "sha256_of_empty =
     [227, 176, 196, 66, 152, 252, 28, 20,
      154, 251, 244, 200, 153, 111, 185, 36,
      39, 174, 65, 228, 100, 155, 147, 76,
      164, 149, 153, 27, 120, 82, 184, 85]"

section \<open>Vector store (the ChromaDB collection used by app/services/memory.py)\<close>

text \<open>
  The collection is an external collaborator.  The memory service sees it through the
  three calls it makes, \<open>coll.add\<close>, \<open>coll.query\<close> and \<open>coll.delete\<close>, which are the
  fields of \<open>collection_api\<close> over a store state \<open>'s\<close>.  What \<open>coll.query\<close>
  returns is a dict of lists, one inner list per query embedding.
\<close>

datatype mvalue = MStr string | MInt int | MFloat real | MBool bool

type_synonym metadata = "(string \<times> mvalue) list"

record document =
  doc_id :: string
  doc_content :: string
  doc_metadata :: metadata
  doc_vector :: "real list"

record raw_result =
  res_documents :: "string list list option"
  res_metadatas :: "metadata list list"
  res_distances :: "real list option list"

record 's collection_api =
  coll_add :: "document \<Rightarrow> 's \<Rightarrow> error + 's"
  coll_query :: "real list \<Rightarrow> int \<Rightarrow> 's \<Rightarrow> error + raw_result option"
  coll_delete :: "string \<Rightarrow> 's \<Rightarrow> error + 's"

text \<open>
  A reference collection after ChromaDB's documented behaviour, the state being the list
  of stored records.  \<open>add\<close> never overwrites a record whose id is present: releases
  differ in whether they raise a duplicate-id error or skip the record, which is the
  \<open>dup_policy\<close>.  \<open>query\<close> rejects a number of results that is not positive and
  otherwise answers with the first \<open>n_results\<close> records of the ranking \<open>nearest\<close>
  (the index is approximate, so the ranking is a parameter).  \<open>delete\<close> of an absent
  id changes nothing.
\<close>

datatype dup_policy = RaiseOnDuplicate | IgnoreDuplicate

definition chroma_add :: "dup_policy \<Rightarrow> document \<Rightarrow> document list \<Rightarrow> error + document list" where
  "chroma_add pol d c =
     (if doc_id d \<in> set (map doc_id c) then
        (case pol of
           RaiseOnDuplicate \<Rightarrow> Inl (StoreError ''DuplicateIDError'')
         | IgnoreDuplicate \<Rightarrow> Inr c)
      else Inr (c @ [d]))"

definition chroma_query ::
  "(real list \<Rightarrow> document list \<Rightarrow> (document \<times> real) list) \<Rightarrow>
   real list \<Rightarrow> int \<Rightarrow> document list \<Rightarrow> error + raw_result option" where
  "chroma_query nearest qvec n_results c =
     (if n_results \<le> 0 then
        Inl (StoreError ''Number of requested results cannot be negative, or zero.'')
      else
        let hits = take (nat n_results) (nearest qvec c)
        in Inr (Some \<lparr>res_documents = Some [map (\<lambda>h. doc_content (fst h)) hits],
                       res_metadatas = [map (\<lambda>h. doc_metadata (fst h)) hits],
                       res_distances = [Some (map snd hits)]\<rparr>))"

definition chroma_delete :: "string \<Rightarrow> document list \<Rightarrow> error + document list" where
  "chroma_delete i c = Inr (filter (\<lambda>d. doc_id d \<noteq> i) c)"

definition chroma ::
  "dup_policy \<Rightarrow> (real list \<Rightarrow> document list \<Rightarrow> (document \<times> real) list) \<Rightarrow>
   document list collection_api" where
  "chroma pol nearest =
     \<lparr>coll_add = chroma_add pol, coll_query = chroma_query nearest, coll_delete = chroma_delete\<rparr>"

text \<open>A ranking for concrete runs: the records in stored order, each at distance 0.\<close>

definition stored_order :: "real list \<Rightarrow> document list \<Rightarrow> (document \<times> real) list" where
  "stored_order qvec c = map (\<lambda>d. (d, 0)) c"

section \<open>Memory service (app/services/memory.py)\<close>

text \<open>
  Each operation is an \<open>async def\<close>: calling it yields a coroutine, which is run only
  when it is awaited.  A coroutine is a function from the store state to an error or a
  result with the new state; awaiting it is applying it to the current state.
  \<open>uuid4\<close> is the string \<open>str(uuid.uuid4())\<close> would return.
\<close>

type_synonym ('s, 'a) coroutine = "'s \<Rightarrow> error + ('a \<times> 's)"

definition save_document ::
  "digest_fn \<Rightarrow> 's collection_api \<Rightarrow> string \<Rightarrow>
   string option \<Rightarrow> string \<Rightarrow> metadata option \<Rightarrow> real list option \<Rightarrow> ('s, string) coroutine" where
  "save_document sha256 coll uuid4 id_opt content metadata embed_opt = (\<lambda>s.
     let id' = (case id_opt of None \<Rightarrow> uuid4 | Some i \<Rightarrow> i);
         metadata' = (case metadata of None \<Rightarrow> [] | Some m \<Rightarrow> m)
     in case (case embed_opt of Some e \<Rightarrow> Inr e
                          | None \<Rightarrow> simple_text_to_vector sha256 content 1536) of
          Inl err \<Rightarrow> Inl err
        | Inr vec \<Rightarrow>
            (case coll_add coll \<lparr>doc_id = id', doc_content = content,
                                  doc_metadata = metadata', doc_vector = vec\<rparr> s of
               Inl err \<Rightarrow> Inl err
             | Inr s' \<Rightarrow> Inr (id', s')))"

definition add ::
  "digest_fn \<Rightarrow> 's collection_api \<Rightarrow> string \<Rightarrow> string \<Rightarrow> string \<Rightarrow> ('s, string) coroutine" where
  "add sha256 coll uuid4 prompt response =
     save_document sha256 coll uuid4 None response (Some [(''prompt'', MStr prompt)]) None"

record query_result =
  qr_id :: mvalue
  qr_content :: string
  qr_metadata :: metadata
  qr_distance :: "real option"

text \<open>\<open>str(i)\<close> for a position \<open>i\<close>: its decimal digits.\<close>

definition digit_char :: "nat \<Rightarrow> char" where
  "digit_char d = char_of (48 + d)"

fun str_nat :: "nat \<Rightarrow> string" where
  "str_nat n = (if n < 10 then [digit_char n] else str_nat (n div 10) @ [digit_char (n mod 10)])"

declare str_nat.simps [simp del]

text \<open>The loop \<open>for i, content in enumerate(docs)\<close> of \<open>query\<close>, from position \<open>i\<close>
  on; \<open>metas[i]\<close> and \<open>dists[i]\<close> raise when the list is too short.\<close>

fun query_results_from ::
  "nat \<Rightarrow> string list \<Rightarrow> metadata list \<Rightarrow> real list option \<Rightarrow> error + query_result list" where
  "query_results_from i [] metas dists = Inr []"
| "query_results_from i (content # docs) metas dists =
     (if length metas \<le> i then Inl IndexError
      else if (case dists of None \<Rightarrow> False | Some ds \<Rightarrow> length ds \<le> i) then Inl IndexError
      else
        (case query_results_from (Suc i) docs metas dists of
           Inl e \<Rightarrow> Inl e
         | Inr rest \<Rightarrow>
             Inr (\<lparr>qr_id = (case map_of (metas ! i) ''id'' of
                               None \<Rightarrow> MStr (str_nat i) | Some v \<Rightarrow> v),
                    qr_content = content,
                    qr_metadata = metas ! i,
                    qr_distance = (case dists of None \<Rightarrow> None | Some ds \<Rightarrow> Some (ds ! i))\<rparr>
                  # rest)))"

definition query ::
  "digest_fn \<Rightarrow> 's collection_api \<Rightarrow> string \<Rightarrow> int \<Rightarrow> ('s, query_result list) coroutine" where
  "query sha256 coll query_text top_k = (\<lambda>s.
     case simple_text_to_vector sha256 query_text 1536 of
       Inl e \<Rightarrow> Inl e
     | Inr qvec \<Rightarrow>
         (case coll_query coll qvec top_k s of
            Inl e \<Rightarrow> Inl e
          | Inr None \<Rightarrow> Inr ([], s)
          | Inr (Some res) \<Rightarrow>
              (case res_documents res of
                 None \<Rightarrow> Inr ([], s)
               | Some [] \<Rightarrow> Inr ([], s)
               | Some (docs # _) \<Rightarrow>
                   (case res_metadatas res of
                      [] \<Rightarrow> Inl IndexError
                    | metas # _ \<Rightarrow>
                        (case res_distances res of
                           [] \<Rightarrow> Inl IndexError
                         | dists # _ \<Rightarrow>
                             (case query_results_from 0 docs metas dists of
                                Inl e \<Rightarrow> Inl e
                              | Inr results \<Rightarrow> Inr (results, s)))))))"


definition delete :: "'s collection_api \<Rightarrow> string \<Rightarrow> ('s, bool) coroutine" where
  "delete coll i = (\<lambda>s.
     case coll_delete coll i s of Inl e \<Rightarrow> Inl e | Inr s' \<Rightarrow> Inr (True, s'))"

section \<open>Generation routes (app/routes/generate.py)\<close>

text \<open>
  The state of the process is the vector store and the two \<open>defaultdict(list)\<close>
  histories.  Reading \<open>d[k]\<close> of a \<open>defaultdict(list)\<close> inserts the empty list for an
  absent key.  The outbound call \<open>client.generate_text\<close> is the parameter
  \<open>generate_text\<close>: an error or the generated text.  Both routes call \<open>memory.query\<close>
  and \<open>memory.add\<close> without \<open>await\<close>: the coroutine is created and never run, and
  the f-string prints the coroutine object, whose text is the parameter \<open>coro_repr\<close>.
\<close>

record generate_request =
  user_id :: string
  prompt :: string
  model :: "string option"
  max_tokens :: int
  temperature :: real

record generate_response =
  resp_text :: string
  resp_markdown :: string
  resp_source :: string
  resp_model :: "string option"

record 's app_state =
  store :: 's
  blog_histories :: "string \<rightharpoonup> string list"
  social_histories :: "string \<rightharpoonup> string list"

type_synonym generate_fn = "string \<Rightarrow> string option \<Rightarrow> int \<Rightarrow> real \<Rightarrow> error + string"

definition MAX_HISTORY :: nat where
  "MAX_HISTORY = 20"

definition nl :: string where
  "nl = [char_of (10::nat)]"

text \<open>\<open>"\n".join(xs)\<close> and the slice \<open>xs[-n:]\<close> for a positive \<open>n\<close>.\<close>

fun join_nl :: "string list \<Rightarrow> string" where
  "join_nl [] = []"
| "join_nl [x] = x"
| "join_nl (x # y # xs) = x @ nl @ join_nl (y # xs)"

definition last_n :: "nat \<Rightarrow> 'a list \<Rightarrow> 'a list" where
  "last_n n xs = drop (length xs - n) xs"

definition defaultdict_touch :: "(string \<rightharpoonup> string list) \<Rightarrow> string \<Rightarrow> (string \<rightharpoonup> string list)" where
  "defaultdict_touch d k = (case d k of None \<Rightarrow> d(k \<mapsto> []) | Some h \<Rightarrow> d)"

definition history_of :: "(string \<rightharpoonup> string list) \<Rightarrow> string \<Rightarrow> string list" where
  "history_of d k = (case d k of None \<Rightarrow> [] | Some h \<Rightarrow> h)"

text \<open>\<open>history.append(entry)\<close> followed by the trim
  \<open>if len(history) > MAX_HISTORY: history.pop(0)\<close>.\<close>

definition append_and_trim :: "string \<Rightarrow> string list \<Rightarrow> string list" where
  "append_and_trim entry history =
     (let history' = history @ [entry]
      in if length history' > MAX_HISTORY then tl history' else history')"

text \<open>The entry \<open>f"User: {request.prompt}\nAI: {text}"\<close>.\<close>

definition history_entry :: "generate_request \<Rightarrow> string \<Rightarrow> string" where
  "history_entry request text = ''User: '' @ prompt request @ nl @ ''AI: '' @ text"

definition blog_prompt :: "string \<Rightarrow> string \<Rightarrow> string \<Rightarrow> string" where
  "blog_prompt past_context conversation_snippets user_prompt =
     ''You are a professional blog writer.'' @ nl @
     ''Your ONLY job is to create engaging, structured, long-form blog posts.'' @ nl @
     ''Do not answer general questions. If the request is off-topic, '' @
     ''politely explain that you can only help with blog writing.'' @ nl @ nl @
     ''Follow this structure:'' @ nl @
     ''- Catchy introduction (hook)'' @ nl @
     ''- Main sections with clear headings'' @ nl @
     ''- Engaging examples and explanations'' @ nl @
     ''- Concise conclusion with a call-to-action'' @ nl @ nl @
     ''Past posts/patterns:'' @ nl @ past_context @ nl @ nl @
     ''Recent conversation:'' @ nl @ conversation_snippets @ nl @ nl @
     ''User request:'' @ nl @ user_prompt"

definition social_prompt :: "string \<Rightarrow> string \<Rightarrow> string \<Rightarrow> string" where
  "social_prompt past_context conversation_snippets user_prompt =
     ''You are a **social media strategist and content creator**.'' @ nl @
     ''Your ONLY job is to generate **short-form social content** '' @
     ''(tweets, LinkedIn posts, Instagram captions, content ideas).'' @ nl @
     ''You must NEVER answer general knowledge questions or unrelated topics.'' @ nl @
     ''If the user asks something outside social media content, politely remind them '' @
     ''that you can only create posts and ideas.'' @ nl @ nl @
     ''Use the following context to maintain style and continuity:'' @ nl @ nl @
     ''Past posts/patterns:'' @ nl @ past_context @ nl @ nl @
     ''Recent conversation:'' @ nl @ conversation_snippets @ nl @ nl @
     ''User request:'' @ nl @ user_prompt"

definition generate_blog_route ::
  "generate_fn \<Rightarrow> digest_fn \<Rightarrow> 's collection_api \<Rightarrow> string \<Rightarrow> string \<Rightarrow>
   generate_request \<Rightarrow> 's app_state \<Rightarrow> (error + generate_response) \<times> 's app_state" where
  "generate_blog_route generate_text sha256 coll uuid4 coro_repr request st =
     (let past_context = query sha256 coll (user_id request @ '':'' @ prompt request) 3;
          histories = defaultdict_touch (blog_histories st) (user_id request);
          history = history_of histories (user_id request);
          conversation_snippets = join_nl (last_n 5 history);
          full_prompt = blog_prompt coro_repr conversation_snippets (prompt request)
      in case generate_text full_prompt (model request) (max_tokens request) (temperature request) of
           Inl e \<Rightarrow>
             (Inl (HTTPException 500 (error_detail e)), st\<lparr>blog_histories := histories\<rparr>)
         | Inr text \<Rightarrow>
             (let pending = add sha256 coll uuid4 (user_id request @ '':'' @ prompt request) text;
                  history' = append_and_trim (history_entry request text) history
              in (Inr \<lparr>resp_text = text, resp_markdown = text,
                        resp_source = ''groq'', resp_model = model request\<rparr>,
                  st\<lparr>blog_histories := histories(user_id request \<mapsto> history')\<rparr>)))"

definition generate_social_route ::
  "generate_fn \<Rightarrow> digest_fn \<Rightarrow> 's collection_api \<Rightarrow> string \<Rightarrow> string \<Rightarrow>
   generate_request \<Rightarrow> 's app_state \<Rightarrow> (error + generate_response) \<times> 's app_state" where
  "generate_social_route generate_text sha256 coll uuid4 coro_repr request st =
     (let past_context = query sha256 coll (user_id request @ '':'' @ prompt request) 3;
          histories = defaultdict_touch (social_histories st) (user_id request);
          history = history_of histories (user_id request);
          conversation_snippets = join_nl (last_n 5 history);
          full_prompt = social_prompt coro_repr conversation_snippets (prompt request)
      in case generate_text full_prompt (model request) (max_tokens request) (temperature request) of
           Inl e \<Rightarrow>
             (Inl (HTTPException 500 (error_detail e)), st\<lparr>social_histories := histories\<rparr>)
         | Inr text \<Rightarrow>
             (let pending = add sha256 coll uuid4 (user_id request @ '':'' @ prompt request) text;
                  history' = append_and_trim (history_entry request text) history
              in (Inr \<lparr>resp_text = text, resp_markdown = text,
                        resp_source = ''groq'', resp_model = model request\<rparr>,
                  st\<lparr>social_histories := histories(user_id request \<mapsto> history')\<rparr>)))"


section \<open>Properties of the style analyzer\<close>

lemma analyze_step_lengths:
  "fst (foldl analyze_step (ls, wc, op) docs) = ls @ map token_count docs"
proof (induction docs arbitrary: ls wc op)
  case Nil
  show ?case by simp
next
  case (Cons d docs)
  have step: "analyze_step (ls, wc, op) d =
      (ls @ [token_count d],
       counter_update (findall_words (lower (case ad_content d of None \<Rightarrow> [] | Some t \<Rightarrow> t))) wc,
       counter_update [join_space (take 20
          (findall_words (lower (case ad_content d of None \<Rightarrow> [] | Some t \<Rightarrow> t))))] op)"
    by (simp add: analyze_step_def token_count_def Let_def)
  show ?case
    by (simp only: foldl_Cons step Cons.IH) simp
qed

lemma token_count_example_1: "token_count \<lparr>ad_content = Some ''alpha beta alpha''\<rparr> = 3"
  by code_simp

lemma token_count_example_2: "token_count \<lparr>ad_content = Some ''Beta gamma''\<rparr> = 2"
  by code_simp

lemma findall_words_example:
  "findall_words (lower ''Beta, gamma_1!'') = [''beta'', ''gamma_1'']"
  by code_simp

text \<open>
  Claim C2, as amended.  For the empty document sequence \<open>analyze\<close> does not fail: it
  returns exactly the sentinel dict of the source, whose keys are \<open>summary\<close>,
  \<open>word_freq\<close> and \<open>avg_length\<close>, with the values \<open>"no_docs"\<close>, the empty dict
  and \<open>0\<close>.
\<close>

theorem analyze_empty_sentinel:
  "analyze [] =
     [(''summary'', PStr ''no_docs''), (''word_freq'', PDict []), (''avg_length'', PInt 0)]"
  by (simp add: analyze_def)

text \<open>
  Claim C2 as stated fails: the dict returned for the empty sequence has none of the keys
  \<open>avg_length_words\<close>, \<open>most_common_words\<close> and \<open>common_openings\<close>.
\<close>

theorem analyze_empty_counterexample:
  "map_of (analyze []) ''avg_length_words'' = None \<and>
   map_of (analyze []) ''most_common_words'' = None \<and>
   map_of (analyze []) ''common_openings'' = None"
  by (simp add: analyze_def)

text \<open>
  Claim C10.  For a non-empty document sequence the profile's \<open>median_length_words\<close>
  is the element at index \<open>n div 2\<close> (zero-based) of the sorted per-document token
  counts, \<open>n\<close> being the number of documents: the middle element for odd \<open>n\<close>, the
  upper-middle one for even \<open>n\<close>.
\<close>

theorem analyze_median_upper_middle:
  assumes "documents \<noteq> []"
  shows "map_of (analyze documents) ''median_length_words'' =
     Some (PInt (int (sort (map token_count documents) ! (length documents div 2))))"
proof -
  obtain ls wc op where f: "foldl analyze_step ([], [], []) documents = (ls, wc, op)"
    by (cases "foldl analyze_step ([], [], []) documents") auto
  have "ls = map token_count documents"
    using analyze_step_lengths[of "[]" "[]" "[]" documents] f by simp
  then show ?thesis
    using assms f by (simp add: analyze_def)
qed

text \<open>Two documents of 3 and 2 tokens: the median is the upper-middle count, 3.\<close>

theorem analyze_median_upper_middle_witness:
  "map_of (analyze [\<lparr>ad_content = Some ''alpha beta alpha''\<rparr>, \<lparr>ad_content = Some ''Beta gamma''\<rparr>])
     ''median_length_words'' = Some (PInt 3)"
  using analyze_median_upper_middle
    [of "[\<lparr>ad_content = Some ''alpha beta alpha''\<rparr>, \<lparr>ad_content = Some ''Beta gamma''\<rparr>]"]
  by (simp add: token_count_example_1 token_count_example_2)

section \<open>Properties of the embedding function\<close>

lemma sum_list_tile: "sum_list (map f (tile xs n)) = real n * sum_list (map f xs)"
  by (induction n) (simp_all add: tile_def algebra_simps)

lemma length_tile: "length (tile xs n) = n * length xs"
  by (induction n) (simp_all add: tile_def)


lemma sum_squares_nonneg: "0 \<le> sum_list (map (\<lambda>x. x * x) xs)" for xs :: "real list"
  by (induction xs) simp_all

lemma l2_norm_nonneg: "0 \<le> l2_norm xs"
  by (simp add: l2_norm_def sum_squares_nonneg)





lemma simple_text_to_vector_1536:
  assumes len: "length (sha256 t) = 32"
    and arr: "arr = map (\<lambda>b. real (unat b)) (sha256 t)"
  shows "simple_text_to_vector sha256 t 1536 =
         Inr (map (\<lambda>x. x / (l2_norm (tile arr 48) + 1 / 10 ^ 8)) (tile arr 48))"
proof -
  have l: "length arr = 32" using len arr by simp
  have unfolded: "simple_text_to_vector sha256 t 1536 =
     (case (if length arr < 1536 then
              (if length arr = 0 then Inl ZeroDivisionError
               else Inr (take 1536 (tile arr (nat \<lceil>real 1536 / real (length arr)\<rceil>))))
            else Inr (take 1536 arr)) of
        Inl e \<Rightarrow> Inl e
      | Inr arr' \<Rightarrow> Inr (map (\<lambda>x. x / (l2_norm arr' + 1 / 10 ^ 8)) arr'))"
    unfolding simple_text_to_vector_def Let_def arr by (rule refl)
  have reps: "nat \<lceil>real 1536 / real (length arr)\<rceil> = 48"
    by (simp add: l)
  have tk: "take 1536 (tile arr 48) = tile arr 48"
    by (simp add: length_tile l)
  show ?thesis
    by (simp add: unfolded l tk)
qed


lemma sha256_of_empty_length: "length sha256_of_empty = 32"
  by (simp add: sha256_of_empty_def)


lemma embed_of_empty_digest:
  "simple_text_to_vector (\<lambda>t. sha256_of_empty) qt 1536 =
     Inr (map (\<lambda>x. x / (l2_norm (tile (map (\<lambda>b. real (unat b)) sha256_of_empty) 48) + 1 / 10 ^ 8))
        (tile (map (\<lambda>b. real (unat b)) sha256_of_empty) 48))"
  by (rule simple_text_to_vector_1536[of "\<lambda>t. sha256_of_empty" qt, OF sha256_of_empty_length refl])


section \<open>Properties of the memory service\<close>

lemma str_nat_examples: "str_nat 0 = ''0''" "str_nat 7 = ''7''" "str_nat 12 = ''12''" "str_nat 305 = ''305''"
  by code_simp+

lemma str_nat_1: "str_nat (Suc 0) = ''1''"
  by code_simp

lemma query_results_from_ok:
  assumes "query_results_from i docs metas dists = Inr rs"
  shows "length rs = length docs \<and>
         (\<forall>j<length rs.
            qr_id (rs ! j) = (case map_of (metas ! (i + j)) ''id'' of
                                None \<Rightarrow> MStr (str_nat (i + j)) | Some v \<Rightarrow> v) \<and>
            qr_content (rs ! j) = docs ! j \<and>
            qr_metadata (rs ! j) = metas ! (i + j) \<and>
            qr_distance (rs ! j) = (case dists of None \<Rightarrow> None | Some ds \<Rightarrow> Some (ds ! (i + j))))"
  using assms
proof (induction docs arbitrary: i rs)
  case Nil
  then show ?case by simp
next
  case (Cons content docs)
  from Cons.prems obtain rest where
    rest: "query_results_from (Suc i) docs metas dists = Inr rest"
    and rs: "rs = \<lparr>qr_id = (case map_of (metas ! i) ''id'' of None \<Rightarrow> MStr (str_nat i) | Some v \<Rightarrow> v),
                   qr_content = content, qr_metadata = metas ! i,
                   qr_distance = (case dists of None \<Rightarrow> None | Some ds \<Rightarrow> Some (ds ! i))\<rparr> # rest"
    by (auto split: if_splits sum.splits)
  note ih = Cons.IH[OF rest]
  show ?case
  proof (intro conjI allI impI)
    show "length rs = length (content # docs)" using ih rs by simp
  next
    fix j assume j: "j < length rs"
    show "qr_id (rs ! j) = (case map_of (metas ! (i + j)) ''id'' of
                                None \<Rightarrow> MStr (str_nat (i + j)) | Some v \<Rightarrow> v)"
      using ih rs j by (cases j) (auto simp del: str_nat.simps split: option.splits)
    show "qr_content (rs ! j) = (content # docs) ! j"
      using ih rs j by (cases j) simp_all
    show "qr_metadata (rs ! j) = metas ! (i + j)"
      using ih rs j by (cases j) simp_all
    show "qr_distance (rs ! j) = (case dists of None \<Rightarrow> None | Some ds \<Rightarrow> Some (ds ! (i + j)))"
      using ih rs j by (cases j) (auto split: option.splits)
  qed
qed

lemma query_results_from_total:
  assumes "i + length docs \<le> length metas"
    and "case dists of None \<Rightarrow> True | Some ds \<Rightarrow> i + length docs \<le> length ds"
  shows "\<exists>rs. query_results_from i docs metas dists = Inr rs"
  using assms
proof (induction docs arbitrary: i)
  case Nil
  then show ?case by simp
next
  case (Cons content docs)
  have "\<exists>rs. query_results_from (Suc i) docs metas dists = Inr rs"
    using Cons.prems by (intro Cons.IH) (auto split: option.splits)
  then show ?case
    using Cons.prems by (auto split: option.splits simp del: str_nat.simps)
qed

lemma query_unfold:
  assumes "simple_text_to_vector H qt 1536 = Inr qvec"
  shows "query H coll qt k s =
     (case coll_query coll qvec k s of
        Inl e \<Rightarrow> Inl e
      | Inr None \<Rightarrow> Inr ([], s)
      | Inr (Some res) \<Rightarrow>
          (case res_documents res of
             None \<Rightarrow> Inr ([], s)
           | Some [] \<Rightarrow> Inr ([], s)
           | Some (docs # _) \<Rightarrow>
               (case res_metadatas res of
                  [] \<Rightarrow> Inl IndexError
                | metas # _ \<Rightarrow>
                    (case res_distances res of
                       [] \<Rightarrow> Inl IndexError
                     | dists # _ \<Rightarrow>
                         (case query_results_from 0 docs metas dists of
                            Inl e \<Rightarrow> Inl e
                          | Inr results \<Rightarrow> Inr (results, s))))))"
  by (simp add: query_def assms)







text \<open>
  Claim C9.  When the store answers a query with documents \<open>docs\<close>, metadata
  \<open>metas\<close> and distances \<open>dists\<close>, every returned result at position \<open>j\<close> has as
  id the value of the key \<open>id\<close> of \<open>metas[j]\<close> when that key is present and
  \<open>str(j)\<close> otherwise, the content \<open>docs[j]\<close>, the metadata \<open>metas[j]\<close>, and as
  distance \<open>dists[j]\<close>, or none when the store reports no distances.  The query
  returns (with the store unchanged) whenever the metadata and distance lists are as
  long as the document list.
\<close>

theorem query_result_fields:
  assumes "simple_text_to_vector H qt 1536 = Inr qvec"
    and "coll_query coll qvec k s = Inr (Some res)"
    and "res_documents res = Some (docs # dtail)"
    and "res_metadatas res = metas # mtail"
    and "res_distances res = dists # ztail"
  shows "(length docs \<le> length metas \<and>
          (case dists of None \<Rightarrow> True | Some ds \<Rightarrow> length docs \<le> length ds) \<longrightarrow>
            (\<exists>rs. query H coll qt k s = Inr (rs, s))) \<and>
         (\<forall>rs s'. query H coll qt k s = Inr (rs, s') \<longrightarrow>
            s' = s \<and> length rs = length docs \<and>
            (\<forall>j<length rs.
               qr_id (rs ! j) = (case map_of (metas ! j) ''id'' of
                                   None \<Rightarrow> MStr (str_nat j) | Some v \<Rightarrow> v) \<and>
               qr_content (rs ! j) = docs ! j \<and>
               qr_metadata (rs ! j) = metas ! j \<and>
               qr_distance (rs ! j) = (case dists of None \<Rightarrow> None | Some ds \<Rightarrow> Some (ds ! j))))"
proof -
  have q: "query H coll qt k s =
      (case query_results_from 0 docs metas dists of
         Inl e \<Rightarrow> Inl e | Inr results \<Rightarrow> Inr (results, s))"
    by (simp add: query_unfold[OF assms(1)] assms(2-5))
  have total: "length docs \<le> length metas \<and>
          (case dists of None \<Rightarrow> True | Some ds \<Rightarrow> length docs \<le> length ds) \<longrightarrow>
            (\<exists>rs. query H coll qt k s = Inr (rs, s))"
  proof
    assume a: "length docs \<le> length metas \<and>
          (case dists of None \<Rightarrow> True | Some ds \<Rightarrow> length docs \<le> length ds)"
    then have "\<exists>rs. query_results_from 0 docs metas dists = Inr rs"
      by (intro query_results_from_total) (auto split: option.splits)
    then show "\<exists>rs. query H coll qt k s = Inr (rs, s)"
      by (auto simp: q)
  qed
  have fields: "\<forall>rs s'. query H coll qt k s = Inr (rs, s') \<longrightarrow>
            s' = s \<and> length rs = length docs \<and>
            (\<forall>j<length rs.
               qr_id (rs ! j) = (case map_of (metas ! j) ''id'' of
                                   None \<Rightarrow> MStr (str_nat j) | Some v \<Rightarrow> v) \<and>
               qr_content (rs ! j) = docs ! j \<and>
               qr_metadata (rs ! j) = metas ! j \<and>
               qr_distance (rs ! j) = (case dists of None \<Rightarrow> None | Some ds \<Rightarrow> Some (ds ! j)))"
  proof (intro allI impI)
    fix rs s' assume r: "query H coll qt k s = Inr (rs, s')"
    then have qr: "query_results_from 0 docs metas dists = Inr rs" and s': "s' = s"
      by (auto simp: q split: sum.splits)
    from query_results_from_ok[OF qr] s'
    show "s' = s \<and> length rs = length docs \<and>
            (\<forall>j<length rs.
               qr_id (rs ! j) = (case map_of (metas ! j) ''id'' of
                                   None \<Rightarrow> MStr (str_nat j) | Some v \<Rightarrow> v) \<and>
               qr_content (rs ! j) = docs ! j \<and>
               qr_metadata (rs ! j) = metas ! j \<and>
               qr_distance (rs ! j) = (case dists of None \<Rightarrow> None | Some ds \<Rightarrow> Some (ds ! j)))"
      by (simp cong: option.case_cong)
  qed
  from total fields show ?thesis by (rule conjI)
qed

text \<open>Two stored records, one with an \<open>id\<close> in its metadata and one without.\<close>

theorem query_result_fields_witness:
  "\<exists>rs. query (\<lambda>t. sha256_of_empty) (chroma IgnoreDuplicate stored_order) ''q'' 3
           [\<lparr>doc_id = ''a'', doc_content = ''first'',
              doc_metadata = [(''id'', MStr ''a''), (''content_type'', MStr ''blog'')], doc_vector = [1]\<rparr>,
            \<lparr>doc_id = ''b'', doc_content = ''second'',
              doc_metadata = [(''prompt'', MStr ''u:p'')], doc_vector = [1]\<rparr>] =
         Inr (rs,
           [\<lparr>doc_id = ''a'', doc_content = ''first'',
              doc_metadata = [(''id'', MStr ''a''), (''content_type'', MStr ''blog'')], doc_vector = [1]\<rparr>,
            \<lparr>doc_id = ''b'', doc_content = ''second'',
              doc_metadata = [(''prompt'', MStr ''u:p'')], doc_vector = [1]\<rparr>]) \<and>
       length rs = 2 \<and> qr_id (rs ! 0) = MStr ''a'' \<and> qr_id (rs ! 1) = MStr ''1'' \<and>
       qr_content (rs ! 1) = ''second'' \<and> qr_distance (rs ! 1) = Some 0"
proof -
  let ?c = "[\<lparr>doc_id = ''a'', doc_content = ''first'',
              doc_metadata = [(''id'', MStr ''a''), (''content_type'', MStr ''blog'')], doc_vector = [1]\<rparr>,
            \<lparr>doc_id = ''b'', doc_content = ''second'',
              doc_metadata = [(''prompt'', MStr ''u:p'')], doc_vector = [1]\<rparr>]"
  let ?res = "\<lparr>res_documents = Some [[''first'', ''second'']],
       res_metadatas = [[[(''id'', MStr ''a''), (''content_type'', MStr ''blog'')], [(''prompt'', MStr ''u:p'')]]],
       res_distances = [Some [0, 0]]\<rparr>"
  have q: "coll_query (chroma IgnoreDuplicate stored_order)
      (map (\<lambda>x. x / (l2_norm (tile (map (\<lambda>b. real (unat b)) sha256_of_empty) 48) + 1 / 10 ^ 8))
        (tile (map (\<lambda>b. real (unat b)) sha256_of_empty) 48)) 3 ?c = Inr (Some ?res)"
    by (simp add: chroma_def chroma_query_def stored_order_def)
  have d: "res_documents ?res = Some ([''first'', ''second''] # [])"
    and m: "res_metadatas ?res =
      [[(''id'', MStr ''a''), (''content_type'', MStr ''blog'')], [(''prompt'', MStr ''u:p'')]] # []"
    and z: "res_distances ?res = Some [0, 0] # []"
    by simp_all
  note t = query_result_fields[OF embed_of_empty_digest[of "''q''"] q d m z]
  from t obtain rs where rs: "query (\<lambda>t. sha256_of_empty) (chroma IgnoreDuplicate stored_order) ''q'' 3 ?c = Inr (rs, ?c)"
    by auto
  with t have f: "length rs = 2 \<and>
      (\<forall>j<length rs.
         qr_id (rs ! j) = (case map_of ([[(''id'', MStr ''a''), (''content_type'', MStr ''blog'')], [(''prompt'', MStr ''u:p'')]] ! j) ''id'' of
                             None \<Rightarrow> MStr (str_nat j) | Some v \<Rightarrow> v) \<and>
         qr_content (rs ! j) = [''first'', ''second''] ! j \<and>
         qr_metadata (rs ! j) = [[(''id'', MStr ''a''), (''content_type'', MStr ''blog'')], [(''prompt'', MStr ''u:p'')]] ! j \<and>
         qr_distance (rs ! j) = (case Some [0, 0] of None \<Rightarrow> None | Some ds \<Rightarrow> Some (ds ! j)))"
    by auto
  then have l: "length rs = 2" by simp
  note f0 = f[THEN conjunct2, THEN spec, of 0]
  note f1 = f[THEN conjunct2, THEN spec, of 1]
  from f0 l have "qr_id (rs ! 0) = MStr ''a''" by simp
  moreover from f1 l have "qr_id (rs ! 1) = MStr ''1''" "qr_content (rs ! 1) = ''second''"
      "qr_distance (rs ! 1) = Some 0"
    by (simp_all add: str_nat_1)
  ultimately show ?thesis using rs l by blast
qed

text \<open>
  Claim C3, as amended.  \<open>query\<close> has no guard on \<open>top_k\<close> and passes it to the
  store unchanged: an error of the store is the error of the query, an answer of the
  store without documents gives the empty result with no error, and on the reference
  collection a \<open>top_k\<close> that is not positive is rejected, so the query fails.
\<close>

theorem query_top_k_forwarded:
  assumes "simple_text_to_vector H qt 1536 = Inr qvec"
  shows "(\<forall>e. coll_query coll qvec k s = Inl e \<longrightarrow> query H coll qt k s = Inl e) \<and>
         (coll_query coll qvec k s = Inr None \<longrightarrow> query H coll qt k s = Inr ([], s)) \<and>
         (\<forall>res. coll_query coll qvec k s = Inr (Some res) \<and>
                (res_documents res = None \<or> res_documents res = Some []) \<longrightarrow>
                query H coll qt k s = Inr ([], s)) \<and>
         (\<forall>res dtail m mtail z ztail.
            coll_query coll qvec k s = Inr (Some res) \<and> res_documents res = Some ([] # dtail) \<and>
            res_metadatas res = m # mtail \<and> res_distances res = z # ztail \<longrightarrow>
            query H coll qt k s = Inr ([], s)) \<and>
         (k \<le> 0 \<longrightarrow>
            query H (chroma pol nearest) qt k c =
              Inl (StoreError ''Number of requested results cannot be negative, or zero.''))"
  by (auto simp: query_unfold[OF assms] chroma_def chroma_query_def)

text \<open>\<open>top_k = -1\<close> on a collection of one record.\<close>

theorem query_top_k_forwarded_witness:
  "query (\<lambda>t. sha256_of_empty) (chroma RaiseOnDuplicate stored_order) ''user writing'' (- 1)
     [\<lparr>doc_id = ''a'', doc_content = ''x'', doc_metadata = [], doc_vector = [1]\<rparr>] =
   Inl (StoreError ''Number of requested results cannot be negative, or zero.'')"
  using query_top_k_forwarded[OF embed_of_empty_digest[of "''user writing''"],
      where k = "- 1" and pol = RaiseOnDuplicate and nearest = stored_order
      and coll = "chroma RaiseOnDuplicate stored_order"
      and s = "[\<lparr>doc_id = ''a'', doc_content = ''x'', doc_metadata = [], doc_vector = [1]\<rparr>]"
      and c = "[\<lparr>doc_id = ''a'', doc_content = ''x'', doc_metadata = [], doc_vector = [1]\<rparr>]"]
  by simp

text \<open>
  Claim C3 as stated fails: with \<open>top_k = 0\<close> on a non-empty reference collection
  the query ends in the store's error, not in an empty result.
\<close>

theorem query_top_k_zero_counterexample:
  "query (\<lambda>t. sha256_of_empty) (chroma IgnoreDuplicate stored_order) ''q'' 0
     [\<lparr>doc_id = ''a'', doc_content = ''x'', doc_metadata = [], doc_vector = [1]\<rparr>] =
   Inl (StoreError ''Number of requested results cannot be negative, or zero.'')"
  by (simp add: query_def simple_text_to_vector_def Let_def sha256_of_empty_def chroma_def chroma_query_def)







section \<open>Properties of the generation routes\<close>




lemma history_of_touch [simp]: "history_of (defaultdict_touch d k) u = history_of d u"
  by (simp add: history_of_def defaultdict_touch_def split: option.splits)


lemma blog_route_store: "store (snd (generate_blog_route g H coll uu cr req st)) = store st"
  by (simp add: generate_blog_route_def Let_def split: sum.splits)

lemma social_route_store: "store (snd (generate_social_route g H coll uu cr req st)) = store st"
  by (simp add: generate_social_route_def Let_def split: sum.splits)







lemma route_outcome_blog:
  "(\<exists>e. fst (generate_blog_route g H coll uu cr req st) = Inl (HTTPException 500 (error_detail e)) \<and>
        g (blog_prompt cr (join_nl (last_n 5 (history_of (blog_histories st) (user_id req)))) (prompt req))
          (model req) (max_tokens req) (temperature req) = Inl e) \<or>
   (\<exists>text. fst (generate_blog_route g H coll uu cr req st) =
        Inr \<lparr>resp_text = text, resp_markdown = text, resp_source = ''groq'', resp_model = model req\<rparr> \<and>
        g (blog_prompt cr (join_nl (last_n 5 (history_of (blog_histories st) (user_id req)))) (prompt req))
          (model req) (max_tokens req) (temperature req) = Inr text)"
  by (simp add: generate_blog_route_def Let_def split: sum.splits)



text \<open>
  Claim C1.  The routes create the coroutine \<open>memory.add(...)\<close> and never await it.
  A blog request whose generation succeeds returns the text and appends the exchange to
  the user's history, and the vector store is as it was; the pending \<open>add\<close>, had it
  been awaited, would have stored the exchange.
\<close>

theorem generation_success_skips_store_write:
  "fst (generate_blog_route (\<lambda>p m k t. Inr ''post'') (\<lambda>t. sha256_of_empty)
     (chroma IgnoreDuplicate stored_order) ''id-1'' ''<coroutine object query>''
     \<lparr>user_id = ''u'', prompt = ''p'', model = None, max_tokens = 100, temperature = 0\<rparr>
     \<lparr>store = [], blog_histories = Map.empty, social_histories = Map.empty\<rparr>) =
     Inr \<lparr>resp_text = ''post'', resp_markdown = ''post'', resp_source = ''groq'', resp_model = None\<rparr> \<and>
   store (snd (generate_blog_route (\<lambda>p m k t. Inr ''post'') (\<lambda>t. sha256_of_empty)
     (chroma IgnoreDuplicate stored_order) ''id-1'' ''<coroutine object query>''
     \<lparr>user_id = ''u'', prompt = ''p'', model = None, max_tokens = 100, temperature = 0\<rparr>
     \<lparr>store = [], blog_histories = Map.empty, social_histories = Map.empty\<rparr>)) = [] \<and>
   history_of (blog_histories (snd (generate_blog_route (\<lambda>p m k t. Inr ''post'') (\<lambda>t. sha256_of_empty)
     (chroma IgnoreDuplicate stored_order) ''id-1'' ''<coroutine object query>''
     \<lparr>user_id = ''u'', prompt = ''p'', model = None, max_tokens = 100, temperature = 0\<rparr>
     \<lparr>store = [], blog_histories = Map.empty, social_histories = Map.empty\<rparr>))) ''u'' =
     [''User: p'' @ nl @ ''AI: post''] \<and>
   (\<exists>d. add (\<lambda>t. sha256_of_empty) (chroma IgnoreDuplicate stored_order) ''id-1'' ''u:p'' ''post'' [] =
          Inr (''id-1'', [d]) \<and> doc_content d = ''post'' \<and>
          doc_metadata d = [(''prompt'', MStr ''u:p'')])"
  by (simp add: generate_blog_route_def Let_def history_of_def defaultdict_touch_def
      append_and_trim_def history_entry_def MAX_HISTORY_def
      add_def save_document_def chroma_def chroma_add_def simple_text_to_vector_def
      sha256_of_empty_def)

end
